theory Spec2Isabelle
  imports Main
begin

section \<open>The Nivaara WhatsApp bot (server.js)\<close>

text \<open>
  A shallow embedding of the two webhook handlers of \<^verbatim>\<open>server.js\<close>, of the
  in-memory conversation store and of the functions that compose and send the
  outbound messages.

  Conventions of the model.
  \<^item> A JavaScript string is the list of the bytes of its UTF-8 encoding. Comparing,
    concatenating and replacing ASCII substrings act on it as they do on the string.
  \<^item> A field of an inbound JSON object is absent (\<open>None\<close>, JavaScript's
    \<^verbatim>\<open>undefined\<close>) or holds a value of the type the platform's schema gives it.
    Reading a property of an absent object throws a \<^verbatim>\<open>TypeError\<close>, which is a
    value of the model.
  \<^item> \<^verbatim>\<open>axios.post\<close> resolves or rejects as the network decides: the handlers take
    the network as a predicate on the payload, and the world records every call
    with its outcome.
  \<^item> A handler runs to completion before the next one starts.
\<close>

subsection \<open>Strings\<close>

text \<open>The characters outside ASCII that the message texts use, in UTF-8.\<close>

definition rsquo :: string where "rsquo = [CHR 0xE2, CHR 0x80, CHR 0x99]"
definition ndash :: string where "ndash = [CHR 0xE2, CHR 0x80, CHR 0x93]"
definition mdash :: string where "mdash = [CHR 0xE2, CHR 0x80, CHR 0x94]"
definition nbhyphen :: string where "nbhyphen = [CHR 0xE2, CHR 0x80, CHR 0x91]"
definition bullet :: string where "bullet = [CHR 0xE2, CHR 0x80, CHR 0xA2]"
definition dagger :: string where "dagger = [CHR 0xE2, CHR 0x80, CHR 0xA0]"
definition lbracket :: string where "lbracket = [CHR 0xE3, CHR 0x80, CHR 0x90]"
definition rbracket :: string where "rbracket = [CHR 0xE3, CHR 0x80, CHR 0x91]"
definition rupee :: string where "rupee = [CHR 0xE2, CHR 0x82, CHR 0xB9]"
definition check_mark :: string where "check_mark = [CHR 0xE2, CHR 0x9C, CHR 0x85]"
definition down_arrow :: string where "down_arrow = [CHR 0xE2, CHR 0xAC, CHR 0x87]"
definition vs16 :: string where "vs16 = [CHR 0xEF, CHR 0xB8, CHR 0x8F]"
definition waving_hand :: string where "waving_hand = [CHR 0xF0, CHR 0x9F, CHR 0x91, CHR 0x8B]"
definition house_garden :: string where "house_garden = [CHR 0xF0, CHR 0x9F, CHR 0x8F, CHR 0xA1]"
definition house :: string where "house = [CHR 0xF0, CHR 0x9F, CHR 0x8F, CHR 0xA0]"
definition money_bag :: string where "money_bag = [CHR 0xF0, CHR 0x9F, CHR 0x92, CHR 0xB0]"
definition point_right :: string where "point_right = [CHR 0xF0, CHR 0x9F, CHR 0x91, CHR 0x89]"
definition telephone :: string where "telephone = [CHR 0xF0, CHR 0x9F, CHR 0x93, CHR 0x9E]"

text \<open>
  \<^verbatim>\<open>String.prototype.trim\<close> removes the white space and the line terminators of
  ECMAScript from both ends: U+0009 to U+000D, U+0020, U+00A0, U+1680, U+2000 to
  U+200A, U+2028, U+2029, U+202F, U+205F, U+3000 and U+FEFF.
\<close>

definition white_space :: "string list" where
  "white_space =
     [[CHR 0x09], [CHR 0x0A], [CHR 0x0B], [CHR 0x0C], [CHR 0x0D], [CHR 0x20],
      [CHR 0xC2, CHR 0xA0],
      [CHR 0xE1, CHR 0x9A, CHR 0x80],
      [CHR 0xE2, CHR 0x80, CHR 0x80], [CHR 0xE2, CHR 0x80, CHR 0x81],
      [CHR 0xE2, CHR 0x80, CHR 0x82], [CHR 0xE2, CHR 0x80, CHR 0x83],
      [CHR 0xE2, CHR 0x80, CHR 0x84], [CHR 0xE2, CHR 0x80, CHR 0x85],
      [CHR 0xE2, CHR 0x80, CHR 0x86], [CHR 0xE2, CHR 0x80, CHR 0x87],
      [CHR 0xE2, CHR 0x80, CHR 0x88], [CHR 0xE2, CHR 0x80, CHR 0x89],
      [CHR 0xE2, CHR 0x80, CHR 0x8A],
      [CHR 0xE2, CHR 0x80, CHR 0xA8], [CHR 0xE2, CHR 0x80, CHR 0xA9],
      [CHR 0xE2, CHR 0x80, CHR 0xAF],
      [CHR 0xE2, CHR 0x81, CHR 0x9F],
      [CHR 0xE3, CHR 0x80, CHR 0x80],
      [CHR 0xEF, CHR 0xBB, CHR 0xBF]]"

definition lead_len :: "string list \<Rightarrow> string \<Rightarrow> nat" where
  \<comment> \<open>the length of the first sequence of \<open>seqs\<close> that \<open>s\<close> starts with, or 0\<close>
  "lead_len seqs s =
     (case find (\<lambda>w. w \<noteq> [] \<and> take (length w) s = w) seqs of
        None \<Rightarrow> 0
      | Some w \<Rightarrow> length w)"

function strip :: "string list \<Rightarrow> string \<Rightarrow> string" where
  "strip seqs s = (if lead_len seqs s = 0 then s else strip seqs (drop (lead_len seqs s) s))"
  by pat_completeness auto
termination
proof (relation "measure (\<lambda>(seqs, s). length s)")
  show "wf (measure (\<lambda>(seqs, s). length s))"
    by simp
next
  fix seqs :: "string list" and s :: string
  assume nz: "lead_len seqs s \<noteq> 0"
  then obtain w where w: "w \<noteq> []" "take (length w) s = w"
    by (auto simp: lead_len_def find_Some_iff split: option.splits)
  then have "s \<noteq> []"
    by auto
  with nz show "((seqs, drop (lead_len seqs s) s), (seqs, s)) \<in> measure (\<lambda>(seqs, s). length s)"
    by simp
qed

declare strip.simps [simp del]

definition trim :: "string \<Rightarrow> string" where
  "trim s = rev (strip (map rev white_space) (rev (strip white_space s)))"

text \<open>
  A regular expression with the flag \<^verbatim>\<open>i\<close> and without the flag \<^verbatim>\<open>u\<close> compares
  characters after \<^verbatim>\<open>Canonicalize\<close>, which maps a character to its upper case but
  never maps a character outside ASCII to one inside. On ASCII it maps \<open>a\<close> to
  \<open>z\<close> to \<open>A\<close> to \<open>Z\<close>; every byte of a character outside ASCII is above 127
  and stays.
\<close>

definition canonicalize :: "char \<Rightarrow> char" where
  "canonicalize c =
     (let n = (of_char c :: nat) in if 97 \<le> n \<and> n \<le> 122 then char_of (n - 32) else c)"

definition matches_ci :: "string \<Rightarrow> string \<Rightarrow> bool" where
  \<comment> \<open>\<^verbatim>\<open>/^lit$/i.test(s)\<close> for a literal \<open>lit\<close>: without the flag \<^verbatim>\<open>m\<close>, \<^verbatim>\<open>^\<close> and
      \<^verbatim>\<open>$\<close> match at the two ends of the input only\<close>
  "matches_ci lit s = (map canonicalize s = map canonicalize lit)"

definition is_greeting :: "string \<Rightarrow> bool" where
  \<comment> \<open>\<^verbatim>\<open>/^(hi|hello)$/i.test(text)\<close>\<close>
  "is_greeting s = (matches_ci ''hi'' s \<or> matches_ci ''hello'' s)"

definition is_callback :: "string \<Rightarrow> bool" where
  \<comment> \<open>\<^verbatim>\<open>/^callback$/i.test(text)\<close>\<close>
  "is_callback s = matches_ci ''callback'' s"

fun replace :: "string \<Rightarrow> string \<Rightarrow> string \<Rightarrow> string" where
  \<comment> \<open>\<^verbatim>\<open>s.replace(pat, rep)\<close> for a string \<open>pat\<close> and a replacement free of \<^verbatim>\<open>$\<close>:
      the first occurrence only\<close>
  "replace pat rep [] = (if pat = [] then rep else [])"
| "replace pat rep (c # s) =
     (if take (length pat) (c # s) = pat then rep @ drop (length pat) (c # s)
      else c # replace pat rep s)"

definition replaceAll :: "char \<Rightarrow> char \<Rightarrow> string \<Rightarrow> string" where
  \<comment> \<open>\<^verbatim>\<open>s.replaceAll(a, b)\<close> for one-character strings\<close>
  "replaceAll a b s = map (\<lambda>c. if c = a then b else c) s"

subsection \<open>The conversation store\<close>

datatype step = START | MENU | ASK_CONFIG | ASK_BUDGET | ASK_REASON | LEAD_CAPTURE | DONE

record user_state =
  step :: step
  config :: "string option"
  budget :: "string option"
  reason :: "string option"

text \<open>
  A WhatsApp id is the value of \<^verbatim>\<open>message.from\<close>: a string, or \<^verbatim>\<open>undefined\<close> when
  the field is absent (a \<^verbatim>\<open>Map\<close> takes \<^verbatim>\<open>undefined\<close> as a key like any other).
\<close>

type_synonym wa_id = "string option"

subsection \<open>Outbound messages\<close>

datatype interactive_out =
    Button string "(string \<times> string) list"
    \<comment> \<open>\<^verbatim>\<open>type: "button"\<close>: the body text; the reply buttons, each an id and a title\<close>
  | ListMsg string string "(string \<times> (string \<times> string) list) list"
    \<comment> \<open>\<^verbatim>\<open>type: "list"\<close>: the body text; the label of the button; the sections, each a
        title and rows of id and title\<close>

datatype content =
    Text string
    \<comment> \<open>\<^verbatim>\<open>type: "text"\<close> with the body of \<^verbatim>\<open>text\<close>\<close>
  | Interactive interactive_out
    \<comment> \<open>\<^verbatim>\<open>type: "interactive"\<close> with the object \<^verbatim>\<open>interactive\<close>\<close>

record payload =
  messaging_product :: string
  to :: wa_id
  content :: content

datatype error =
    TypeError
    \<comment> \<open>a property of \<^verbatim>\<open>undefined\<close> was read\<close>
  | SendError payload
    \<comment> \<open>\<^verbatim>\<open>axios.post\<close> rejected the payload\<close>

record response =
  status :: nat
  body :: "string option"

text \<open>
  The world a handler acts on: the \<^verbatim>\<open>state\<close> map, the calls of \<^verbatim>\<open>axios.post\<close> in
  order, each with whether it resolved, and what \<^verbatim>\<open>console.error\<close> received.
\<close>

record world =
  state :: "wa_id \<rightharpoonup> user_state"
  outbox :: "(payload \<times> bool) list"
  console :: "error list"

definition startup :: world where
  \<comment> \<open>the world when the server starts: \<^verbatim>\<open>new Map()\<close>, nothing sent, nothing logged\<close>
  "startup = \<lparr>state = Map.empty, outbox = [], console = []\<rparr>"

type_synonym 'a result = "(error + 'a) \<times> world"

definition andThen :: "'a result \<Rightarrow> ('a \<Rightarrow> world \<Rightarrow> 'b result) \<Rightarrow> 'b result" where
  \<comment> \<open>\<^verbatim>\<open>await\<close> and the statements after it: a rejection skips them\<close>
  "andThen r k = (case r of (Inl e, w) \<Rightarrow> (Inl e, w) | (Inr x, w) \<Rightarrow> k x w)"

definition new_user :: user_state where
  "new_user = \<lparr>step = START, config = None, budget = None, reason = None\<rparr>"

definition put :: "wa_id \<Rightarrow> user_state \<Rightarrow> world \<Rightarrow> world" where
  \<comment> \<open>the object stored under \<open>waId\<close> after an assignment to one of its fields\<close>
  "put waId us w = w\<lparr>state := (state w)(waId \<mapsto> us)\<rparr>"

definition getUserState :: "wa_id \<Rightarrow> world \<Rightarrow> user_state \<times> world" where
  "getUserState waId w =
     (case state w waId of
        None \<Rightarrow> (new_user, put waId new_user w)
      | Some us \<Rightarrow> (us, w))"

definition sendMessage :: "(payload \<Rightarrow> bool) \<Rightarrow> payload \<Rightarrow> world \<Rightarrow> unit result" where
  "sendMessage net p w =
     (let w' = w\<lparr>outbox := outbox w @ [(p, net p)]\<rparr>
      in if net p then (Inr (), w') else (Inl (SendError p), w'))"

definition text_message :: "wa_id \<Rightarrow> string \<Rightarrow> payload" where
  "text_message t b = \<lparr>messaging_product = ''whatsapp'', to = t, content = Text b\<rparr>"

definition welcome_menu :: "wa_id \<Rightarrow> payload" where
  "welcome_menu t =
     \<lparr>messaging_product = ''whatsapp'', to = t,
      content = Interactive (Button
        (waving_hand @ '' Hi! Welcome to *Nivaara Realty* '' @ house_garden @ ''\<newline>\<newline>''
         @ ''We simplify your real estate journey across Pune and beyond.\<newline>''
         @ ''Please choose an option below to get started '' @ down_arrow @ vs16)
        [(''BTN_SEARCH'', ''Search Property''),
         (''BTN_WHY'', ''Why Nivaara?''),
         (''BTN_EXPERT'', ''Talk to Expert'')])\<rparr>"

definition sendWelcome :: "(payload \<Rightarrow> bool) \<Rightarrow> wa_id \<Rightarrow> world \<Rightarrow> unit result" where
  "sendWelcome net t w = sendMessage net (welcome_menu t) w"

definition config_list :: "wa_id \<Rightarrow> payload" where
  "config_list t =
     \<lparr>messaging_product = ''whatsapp'', to = t,
      content = Interactive (ListMsg (house @ '' Select configuration'') ''Choose''
        [(''Configuration'',
          [(''CFG_1BHK'', ''1 BHK''),
           (''CFG_2BHK'', ''2 BHK''),
           (''CFG_3BHK'', ''3 BHK''),
           (''CFG_4PLUS'', ''4+ BHK'')])])\<rparr>"

definition sendConfigList :: "(payload \<Rightarrow> bool) \<Rightarrow> wa_id \<Rightarrow> world \<Rightarrow> unit result" where
  "sendConfigList net t w = sendMessage net (config_list t) w"

definition budget_list :: "wa_id \<Rightarrow> payload" where
  "budget_list t =
     \<lparr>messaging_product = ''whatsapp'', to = t,
      content = Interactive (ListMsg (money_bag @ '' Choose your price range'') ''Select''
        [(''Price Range'',
          [(''BUD_BELOW_50'', ''Below '' @ rupee @ ''50L''),
           (''BUD_50_75'', rupee @ ''50'' @ ndash @ ''75L''),
           (''BUD_75_1CR'', rupee @ ''75L'' @ ndash @ ''1Cr''),
           (''BUD_1CR_PLUS'', rupee @ ''1Cr+'')])])\<rparr>"

definition sendBudgetList :: "(payload \<Rightarrow> bool) \<Rightarrow> wa_id \<Rightarrow> world \<Rightarrow> unit result" where
  "sendBudgetList net t w = sendMessage net (budget_list t) w"

definition reason_buttons :: "wa_id \<Rightarrow> payload" where
  "reason_buttons t =
     \<lparr>messaging_product = ''whatsapp'', to = t,
      content = Interactive (Button ''Almost done! Why are you looking to buy?''
        [(''RSN_SELF'', ''Self Use''),
         (''RSN_INVEST'', ''Investment'')])\<rparr>"

definition sendReasonButtons :: "(payload \<Rightarrow> bool) \<Rightarrow> wa_id \<Rightarrow> world \<Rightarrow> unit result" where
  "sendReasonButtons net t w = sendMessage net (reason_buttons t) w"

definition or_dash :: "string option \<Rightarrow> string" where
  \<comment> \<open>\<^verbatim>\<open>x || "-"\<close>: \<^verbatim>\<open>null\<close> and the empty string are falsy\<close>
  "or_dash x = (case x of None \<Rightarrow> ''-'' | Some s \<Rightarrow> if s = [] then ''-'' else s)"

definition link :: string where
  "link = ''https://nivaararealty.com/''"

definition summary :: "user_state \<Rightarrow> string" where
  "summary userState =
     check_mark @ '' Great! Here'' @ rsquo @ ''s what you selected:\<newline>''
     @ bullet @ '' Configuration: '' @ or_dash (config userState) @ ''\<newline>''
     @ bullet @ '' Budget: '' @ or_dash (budget userState) @ ''\<newline>''
     @ bullet @ '' Purpose: '' @ or_dash (reason userState) @ ''\<newline>\<newline>''"

definition final :: "wa_id \<Rightarrow> user_state \<Rightarrow> payload" where
  "final t userState =
     text_message t
       (summary userState
        @ point_right @ '' Browse matching properties here: '' @ link @ ''\<newline>''
        @ ''Or type *CALLBACK* to connect with our expert.'')"

definition sendFinal :: "(payload \<Rightarrow> bool) \<Rightarrow> wa_id \<Rightarrow> user_state \<Rightarrow> world \<Rightarrow> unit result" where
  "sendFinal net t userState w =
     andThen (sendMessage net (final t userState) w) (\<lambda>_ w'. sendWelcome net t w')"

definition why_nivaara :: "wa_id \<Rightarrow> payload" where
  "why_nivaara t =
     text_message t
       (check_mark @ '' *Why choose Nivaara?*\<newline>''
        @ bullet @ '' Comprehensive real estate consultancy across residential, commercial, land and investment deals.\<newline>''
        @ bullet @ '' Operates pan'' @ nbhyphen @ ''India and internationally, with a base in Pune and deep market expertise''
        @ lbracket @ ''222220955652304'' @ dagger @ ''L43-L47'' @ rbracket @ ''.\<newline>''
        @ bullet @ '' End'' @ nbhyphen @ ''to'' @ nbhyphen @ ''end service: from search to paperwork, we manage everything''
        @ lbracket @ ''222220955652304'' @ dagger @ ''L94-L110'' @ rbracket @ ''.\<newline>''
        @ bullet @ '' Trust & transparency with verified properties and honest guidance''
        @ lbracket @ ''222220955652304'' @ dagger @ ''L94-L110'' @ rbracket @ ''.\<newline>''
        @ ''\<newline>Tap *Search Property* to explore listings or *Talk to Expert* for personalised advice.'')"

definition sendWhyNivaara :: "(payload \<Rightarrow> bool) \<Rightarrow> wa_id \<Rightarrow> world \<Rightarrow> unit result" where
  "sendWhyNivaara net t w =
     andThen (sendMessage net (why_nivaara t) w) (\<lambda>_ w'. sendWelcome net t w')"

definition callback_prompt :: "wa_id \<Rightarrow> payload" where
  "callback_prompt t =
     text_message t
       (telephone @ '' Please share your *Name + Preferred Area + Budget* and our advisor will call you shortly.'')"

definition expert_prompt :: "wa_id \<Rightarrow> payload" where
  "expert_prompt t =
     text_message t
       (telephone @ '' Sure '' @ mdash @ '' please share your *Name + Preferred Area + Budget* and we''
        @ rsquo @ ''ll call you.'')"

definition fallback :: "wa_id \<Rightarrow> payload" where
  "fallback t = text_message t ''Type *HI* to start over, or *CALLBACK* for an expert call.''"

subsection \<open>Inbound payloads\<close>

text \<open>
  The objects of a request, with the fields that the handlers read. A field keeps
  its name where the name is free: \<open>reply_id\<close> is \<^verbatim>\<open>id\<close>, \<open>interactive_type\<close> is
  \<^verbatim>\<open>interactive.type\<close>, \<open>text_body\<close> is \<^verbatim>\<open>text.body\<close>, \<open>msg_from\<close>, \<open>msg_type\<close>,
  \<open>msg_text\<close> and \<open>msg_interactive\<close> are the fields \<^verbatim>\<open>from\<close>, \<^verbatim>\<open>type\<close>, \<^verbatim>\<open>text\<close>
  and \<^verbatim>\<open>interactive\<close> of a message, \<open>change_value\<close> is \<^verbatim>\<open>value\<close>, \<open>entries\<close> is
  \<^verbatim>\<open>entry\<close>, and the fields of \<open>query\<close> are \<^verbatim>\<open>hub.mode\<close>, \<^verbatim>\<open>hub.verify_token\<close>
  and \<^verbatim>\<open>hub.challenge\<close>. A request is its body, or \<open>None\<close> when it has none.
\<close>

record reply =
  reply_id :: "string option"

record interactive =
  interactive_type :: "string option"
  button_reply :: "reply option"
  list_reply :: "reply option"

record text_obj =
  text_body :: "string option"

record message =
  msg_from :: wa_id
  msg_type :: "string option"
  msg_text :: "text_obj option"
  msg_interactive :: "interactive option"

record value_obj =
  messages :: "message list option"

record change =
  change_value :: "value_obj option"

record entry =
  changes :: "change list option"

record req_body =
  entries :: "entry list option"

record query =
  hub_mode :: "string option"
  hub_verify_token :: "string option"
  hub_challenge :: "string option"

definition first :: "'a list option \<Rightarrow> 'a option" where
  \<comment> \<open>\<^verbatim>\<open>xs?.[0]\<close>\<close>
  "first xs = (case xs of None \<Rightarrow> None | Some [] \<Rightarrow> None | Some (x # _) \<Rightarrow> Some x)"

definition incoming_message :: "req_body option \<Rightarrow> error + message option" where
  \<comment> \<open>lines 305 to 308; \<^verbatim>\<open>req.body.entry\<close> throws when the request has no body\<close>
  "incoming_message b =
     (case b of
        None \<Rightarrow> Inl TypeError
      | Some bd \<Rightarrow>
          Inr (case first (entries bd) of
                 None \<Rightarrow> None
               | Some e \<Rightarrow>
                   (case first (changes e) of
                      None \<Rightarrow> None
                    | Some c \<Rightarrow>
                        (case change_value c of
                           None \<Rightarrow> None
                         | Some v \<Rightarrow> first (messages v)))))"

definition incomingId_of :: "message \<Rightarrow> error + string option" where
  \<comment> \<open>lines 313 to 321; \<open>None\<close> is \<^verbatim>\<open>null\<close> or \<^verbatim>\<open>undefined\<close>\<close>
  "incomingId_of m =
     (if msg_type m = Some ''interactive'' then
        (case msg_interactive m of
           None \<Rightarrow> Inl TypeError
         | Some i \<Rightarrow>
             if interactive_type i = Some ''button_reply'' then
               (case button_reply i of None \<Rightarrow> Inl TypeError | Some r \<Rightarrow> Inr (reply_id r))
             else if interactive_type i = Some ''list_reply'' then
               (case list_reply i of None \<Rightarrow> Inl TypeError | Some r \<Rightarrow> Inr (reply_id r))
             else Inr None)
      else Inr None)"

definition text_of :: "message \<Rightarrow> string" where
  \<comment> \<open>line 323\<close>
  "text_of m =
     (if msg_type m = Some ''text'' then
        trim (case msg_text m of
                None \<Rightarrow> []
              | Some t \<Rightarrow> (case text_body t of None \<Rightarrow> [] | Some b \<Rightarrow> b))
      else [])"

text \<open>
  The deliveries the platform makes: one entry, one change, one message, which is a
  text, the reply to a button or the reply to a list.
\<close>

definition delivery :: "message \<Rightarrow> req_body option" where
  "delivery m =
     Some \<lparr>entries = Some [\<lparr>changes = Some [\<lparr>change_value = Some \<lparr>messages = Some [m]\<rparr>\<rparr>]\<rparr>]\<rparr>"

definition text_msg :: "string \<Rightarrow> string \<Rightarrow> message" where
  "text_msg sender b =
     \<lparr>msg_from = Some sender, msg_type = Some ''text'',
      msg_text = Some \<lparr>text_body = Some b\<rparr>, msg_interactive = None\<rparr>"

definition button_msg :: "string \<Rightarrow> string \<Rightarrow> message" where
  "button_msg sender i =
     \<lparr>msg_from = Some sender, msg_type = Some ''interactive'', msg_text = None,
      msg_interactive =
        Some \<lparr>interactive_type = Some ''button_reply'',
              button_reply = Some \<lparr>reply_id = Some i\<rparr>, list_reply = None\<rparr>\<rparr>"

definition list_msg :: "string \<Rightarrow> string \<Rightarrow> message" where
  "list_msg sender i =
     \<lparr>msg_from = Some sender, msg_type = Some ''interactive'', msg_text = None,
      msg_interactive =
        Some \<lparr>interactive_type = Some ''list_reply'',
              button_reply = None, list_reply = Some \<lparr>reply_id = Some i\<rparr>\<rparr>\<rparr>"

subsection \<open>The handlers\<close>

definition sendStatus :: "nat \<Rightarrow> response" where
  \<comment> \<open>\<^verbatim>\<open>res.sendStatus(n)\<close>: Express sends the status with its reason phrase as the
      body; the handlers use 200 and 403 only\<close>
  "sendStatus n =
     \<lparr>status = n,
      body = Some (if n = 200 then ''OK'' else if n = 403 then ''Forbidden'' else [])\<rparr>"

definition get_webhook :: "string \<Rightarrow> query \<Rightarrow> world \<Rightarrow> response \<times> world" where
  \<comment> \<open>\<^verbatim>\<open>app.get("/webhook")\<close>, with the value of \<^verbatim>\<open>VERIFY_TOKEN\<close>\<close>
  "get_webhook VERIFY_TOKEN q w =
     (if hub_mode q = Some ''subscribe'' \<and> hub_verify_token q = Some VERIFY_TOKEN
      then (\<lparr>status = 200, body = hub_challenge q\<rparr>, w)
      else (sendStatus 403, w))"

definition route ::
  "(payload \<Rightarrow> bool) \<Rightarrow> wa_id \<Rightarrow> user_state \<Rightarrow> string option \<Rightarrow> world \<Rightarrow> unit result" where
  \<comment> \<open>the \<^verbatim>\<open>switch\<close> of lines 343 to 398\<close>
  "route net from userState incomingId w =
     (case incomingId of
        None \<Rightarrow> sendMessage net (fallback from) w
      | Some i \<Rightarrow>
          if i = ''BTN_SEARCH'' then
            sendConfigList net from (put from (userState\<lparr>step := ASK_CONFIG\<rparr>) w)
          else if i = ''BTN_WHY'' then
            sendWhyNivaara net from w
          else if i = ''BTN_EXPERT'' then
            sendMessage net (expert_prompt from) (put from (userState\<lparr>step := LEAD_CAPTURE\<rparr>) w)
          else if i = ''CFG_1BHK'' \<or> i = ''CFG_2BHK'' \<or> i = ''CFG_3BHK'' \<or> i = ''CFG_4PLUS'' then
            sendBudgetList net from
              (put from (userState\<lparr>config := Some (replace ''CFG_'' [] i), step := ASK_BUDGET\<rparr>) w)
          else if i = ''BUD_BELOW_50'' \<or> i = ''BUD_50_75'' \<or> i = ''BUD_75_1CR''
                  \<or> i = ''BUD_1CR_PLUS'' then
            sendReasonButtons net from
              (put from
                 (userState\<lparr>budget := Some (replaceAll CHR ''_'' CHR '' '' (replace ''BUD_'' [] i)),
                            step := ASK_REASON\<rparr>) w)
          else if i = ''RSN_SELF'' \<or> i = ''RSN_INVEST'' then
            (let us = userState\<lparr>reason := Some (if i = ''RSN_SELF'' then ''Self Use''
                                                  else ''Investment''),
                                step := DONE\<rparr>
             in sendFinal net from us (put from us w))
          else sendMessage net (fallback from) w)"

definition handle :: "(payload \<Rightarrow> bool) \<Rightarrow> req_body option \<Rightarrow> world \<Rightarrow> response result" where
  \<comment> \<open>the \<^verbatim>\<open>try\<close> block of \<^verbatim>\<open>app.post("/webhook")\<close>\<close>
  "handle net req w0 =
     (case incoming_message req of
        Inl e \<Rightarrow> (Inl e, w0)
      | Inr None \<Rightarrow> (Inr (sendStatus 200), w0)
      | Inr (Some message) \<Rightarrow>
          (let from = msg_from message;
               (userState, w) = getUserState from w0
           in case incomingId_of message of
                Inl e \<Rightarrow> (Inl e, w)
              | Inr incomingId \<Rightarrow>
                  (let text = text_of message
                   in if is_greeting text \<or> step userState = START then
                        andThen (sendWelcome net from (put from (userState\<lparr>step := MENU\<rparr>) w))
                          (\<lambda>_ w'. (Inr (sendStatus 200), w'))
                      else if is_callback text then
                        andThen (sendMessage net (callback_prompt from) w)
                          (\<lambda>_ w'. (Inr (sendStatus 200),
                                    put from (userState\<lparr>step := LEAD_CAPTURE\<rparr>) w'))
                      else
                        andThen (route net from userState incomingId w)
                          (\<lambda>_ w'. (Inr (sendStatus 200), w')))))"

definition post_webhook :: "(payload \<Rightarrow> bool) \<Rightarrow> req_body option \<Rightarrow> world \<Rightarrow> response \<times> world" where
  \<comment> \<open>\<^verbatim>\<open>app.post("/webhook")\<close>: the \<^verbatim>\<open>catch\<close> logs the error and acknowledges\<close>
  "post_webhook net req w =
     (case handle net req w of
        (Inr r, w') \<Rightarrow> (r, w')
      | (Inl e, w') \<Rightarrow> (sendStatus 200, w'\<lparr>console := console w' @ [e]\<rparr>))"

text \<open>The server handling deliveries one after the other, each with its network.\<close>

fun deliveries :: "((payload \<Rightarrow> bool) \<times> req_body option) list \<Rightarrow> world \<Rightarrow> world" where
  "deliveries [] w = w"
| "deliveries ((net, req) # rest) w = deliveries rest (snd (post_webhook net req w))"

subsection \<open>Notions used by the properties\<close>

definition delivered :: "payload \<Rightarrow> bool" where
  \<comment> \<open>the network on which every \<^verbatim>\<open>axios.post\<close> resolves\<close>
  "delivered p = True"

definition rejected :: "payload \<Rightarrow> bool" where
  \<comment> \<open>the network on which every \<^verbatim>\<open>axios.post\<close> rejects\<close>
  "rejected p = False"

definition recognised :: "string list" where
  \<comment> \<open>the \<^verbatim>\<open>case\<close> labels of the \<^verbatim>\<open>switch\<close>\<close>
  "recognised =
     [''BTN_SEARCH'', ''BTN_WHY'', ''BTN_EXPERT'',
      ''CFG_1BHK'', ''CFG_2BHK'', ''CFG_3BHK'', ''CFG_4PLUS'',
      ''BUD_BELOW_50'', ''BUD_50_75'', ''BUD_75_1CR'', ''BUD_1CR_PLUS'',
      ''RSN_SELF'', ''RSN_INVEST'']"

definition settle :: "unit result \<Rightarrow> response \<times> world" where
  \<comment> \<open>how the handler ends after the sends of a branch: \<^verbatim>\<open>res.sendStatus(200)\<close> when
      they resolved, the \<^verbatim>\<open>catch\<close> block when one rejected\<close>
  "settle r =
     (case r of
        (Inr _, w') \<Rightarrow> (sendStatus 200, w')
      | (Inl e, w') \<Rightarrow> (sendStatus 200, w'\<lparr>console := console w' @ [e]\<rparr>))"

fun trace :: "(payload \<Rightarrow> bool) \<Rightarrow> payload list \<Rightarrow> (payload \<times> bool) list" where
  \<comment> \<open>what the outbox receives when the payloads are sent in order, each after the
      one before has resolved\<close>
  "trace net [] = []"
| "trace net (p # ps) = (p, net p) # (if net p then trace net ps else [])"

definition failures :: "(payload \<times> bool) list \<Rightarrow> error list" where
  \<comment> \<open>the errors of the rejected sends\<close>
  "failures tr = map (\<lambda>a. SendError (fst a)) (filter (\<lambda>a. \<not> snd a) tr)"

definition attempts :: "world \<Rightarrow> world \<Rightarrow> (payload \<times> bool) list" where
  \<comment> \<open>the sends made between the world \<open>w\<close> and the later world \<open>w'\<close>\<close>
  "attempts w w' = drop (length (outbox w)) (outbox w')"

definition well_typed :: "user_state \<Rightarrow> bool" where
  \<comment> \<open>every field is \<^verbatim>\<open>null\<close> or a value of its enumeration\<close>
  "well_typed us =
     (config us \<in> set [None, Some ''1BHK'', Some ''2BHK'', Some ''3BHK'', Some ''4PLUS'']
      \<and> budget us \<in> set [None, Some ''BELOW 50'', Some ''50 75'', Some ''75 1CR'', Some ''1CR PLUS'']
      \<and> reason us \<in> set [None, Some ''Self Use'', Some ''Investment''])"

definition filled :: "user_state \<Rightarrow> user_state \<Rightarrow> bool" where
  \<comment> \<open>no field that holds a value in \<open>us\<close> is \<^verbatim>\<open>null\<close> in \<open>us'\<close>\<close>
  "filled us us' =
     ((config us \<noteq> None \<longrightarrow> config us' \<noteq> None)
      \<and> (budget us \<noteq> None \<longrightarrow> budget us' \<noteq> None)
      \<and> (reason us \<noteq> None \<longrightarrow> reason us' \<noteq> None))"

definition senders :: "((payload \<Rightarrow> bool) \<times> req_body option) list \<Rightarrow> wa_id set" where
  \<comment> \<open>the senders of the messages that a list of deliveries carries\<close>
  "senders ds = {msg_from m | m d. d \<in> set ds \<and> incoming_message (snd d) = Inr (Some m)}"

section \<open>Properties\<close>

subsection \<open>Texts and identifiers of a message\<close>

lemma not_greeting_empty: "\<not> is_greeting []"
  by (simp add: is_greeting_def matches_ci_def)

lemma not_callback_empty: "\<not> is_callback []"
  by (simp add: is_callback_def matches_ci_def)

lemma greeting_not_callback: "is_greeting s \<Longrightarrow> \<not> is_callback s"
  by (auto simp: is_greeting_def is_callback_def matches_ci_def dest: map_eq_imp_length_eq)

lemma text_of_interactive: "incomingId_of m = Inr (Some i) \<Longrightarrow> text_of m = []"
  by (auto simp: incomingId_of_def text_of_def split: if_splits)

lemma text_no_throw: "text_of m \<noteq> [] \<Longrightarrow> incomingId_of m = Inr None"
  by (auto simp: incomingId_of_def text_of_def split: if_splits)

lemma incoming_delivery: "incoming_message (delivery m) = Inr (Some m)"
  by (simp add: incoming_message_def delivery_def first_def)

lemma text_of_text_msg: "text_of (text_msg u b) = trim b"
  by (simp add: text_of_def text_msg_def)

lemma incomingId_text_msg: "incomingId_of (text_msg u b) = Inr None"
  by (simp add: incomingId_of_def text_msg_def)

lemma incomingId_button_msg: "incomingId_of (button_msg u i) = Inr (Some i)"
  by (simp add: incomingId_of_def button_msg_def)

lemma incomingId_list_msg: "incomingId_of (list_msg u i) = Inr (Some i)"
  by (simp add: incomingId_of_def list_msg_def)

lemma msg_from_simps:
  "msg_from (text_msg u b) = Some u" "msg_from (button_msg u i) = Some u"
  "msg_from (list_msg u i) = Some u"
  by (simp_all add: text_msg_def button_msg_def list_msg_def)

lemma trim_examples:
  "trim '' Hi '' = ''Hi''" "trim ''callback'' = ''callback''" "trim ''price?'' = ''price?''"
  by code_simp+

lemma greeting_examples:
  "is_greeting ''Hi''" "\<not> is_greeting ''callback''" "is_callback ''callback''"
  "\<not> is_greeting ''price?''" "\<not> is_callback ''price?''"
  by code_simp+

subsection \<open>The branches of the handler\<close>

lemma settle_sendMessage:
  "settle (sendMessage net p w) =
     (sendStatus 200,
      w\<lparr>outbox := outbox w @ [(p, net p)],
        console := console w @ (if net p then [] else [SendError p])\<rparr>)"
  by (simp add: settle_def sendMessage_def Let_def)

lemma put_getUserState:
  "put u us (snd (getUserState u w)) = put u us w"
  by (simp add: getUserState_def put_def split: option.splits)

lemma getUserState_known:
  "step (fst (getUserState u w)) \<noteq> START \<Longrightarrow> snd (getUserState u w) = w"
  by (simp add: getUserState_def new_user_def split: option.splits)

lemma getUserState_fst:
  "fst (getUserState u w) = (case state w u of None \<Rightarrow> new_user | Some us \<Rightarrow> us)"
  by (simp add: getUserState_def split: option.splits)

lemma getUserState_snd:
  "snd (getUserState u w) = w\<lparr>state := (state w)(u \<mapsto> fst (getUserState u w))\<rparr>"
  by (simp add: getUserState_def put_def map_upd_triv split: option.splits)

lemma incomingId_error: "incomingId_of m = Inl e \<Longrightarrow> e = TypeError"
  by (auto simp: incomingId_of_def split: if_splits option.splits)

lemma post_throw:
  assumes "incoming_message req = Inr (Some m)" and "incomingId_of m = Inl e"
  shows "post_webhook net req w =
           (sendStatus 200,
            w\<lparr>state := (state w)(msg_from m \<mapsto> fst (getUserState (msg_from m) w)),
              console := console w @ [TypeError]\<rparr>)"
proof -
  obtain us w0 where g: "getUserState (msg_from m) w = (us, w0)"
    by (cases "getUserState (msg_from m) w")
  have w0: "w0 = w\<lparr>state := (state w)(msg_from m \<mapsto> us)\<rparr>"
    using getUserState_snd [of "msg_from m" w] g by simp
  from assms g incomingId_error [OF assms(2)] show ?thesis
    by (simp add: post_webhook_def handle_def w0)
qed

lemma post_rule1:
  assumes "incoming_message req = Inr (Some m)" and "incomingId_of m = Inr i"
    and "is_greeting (text_of m) \<or> step (fst (getUserState (msg_from m) w)) = START"
  shows "post_webhook net req w =
           settle (sendWelcome net (msg_from m)
             (put (msg_from m) ((fst (getUserState (msg_from m) w))\<lparr>step := MENU\<rparr>) w))"
proof -
  obtain us w0 where g: "getUserState (msg_from m) w = (us, w0)"
    by (cases "getUserState (msg_from m) w")
  then have "put (msg_from m) (us\<lparr>step := MENU\<rparr>) w0 = put (msg_from m) (us\<lparr>step := MENU\<rparr>) w"
    using put_getUserState [of "msg_from m" "us\<lparr>step := MENU\<rparr>" w] by simp
  with assms g show ?thesis
    by (auto simp: post_webhook_def handle_def settle_def andThen_def split: prod.splits sum.splits)
qed

lemma post_rule2:
  assumes "incoming_message req = Inr (Some m)"
    and "is_callback (text_of m)"
    and "step (fst (getUserState (msg_from m) w)) \<noteq> START"
  shows "post_webhook net req w =
           (case sendMessage net (callback_prompt (msg_from m)) w of
              (Inr _, w') \<Rightarrow>
                (sendStatus 200,
                 put (msg_from m) ((fst (getUserState (msg_from m) w))\<lparr>step := LEAD_CAPTURE\<rparr>) w')
            | (Inl e, w') \<Rightarrow> (sendStatus 200, w'\<lparr>console := console w' @ [e]\<rparr>))"
proof -
  obtain us w0 where g: "getUserState (msg_from m) w = (us, w0)"
    by (cases "getUserState (msg_from m) w")
  with assms(3) have w0: "w0 = w"
    using getUserState_known [of "msg_from m" w] by simp
  have t: "text_of m \<noteq> []"
    using assms(2) not_callback_empty by auto
  have ng: "\<not> is_greeting (text_of m)"
    using assms(2) greeting_not_callback by blast
  from assms g w0 ng text_no_throw [OF t] show ?thesis
    by (auto simp: post_webhook_def handle_def andThen_def split: prod.splits sum.splits)
qed

lemma post_rule3:
  assumes "incoming_message req = Inr (Some m)" and "incomingId_of m = Inr i"
    and "\<not> is_greeting (text_of m)" and "step (fst (getUserState (msg_from m) w)) \<noteq> START"
    and "\<not> is_callback (text_of m)"
  shows "post_webhook net req w =
           settle (route net (msg_from m) (fst (getUserState (msg_from m) w)) i w)"
proof -
  obtain us w0 where g: "getUserState (msg_from m) w = (us, w0)"
    by (cases "getUserState (msg_from m) w")
  with assms(4) have w0: "w0 = w"
    using getUserState_known [of "msg_from m" w] by simp
  from assms g w0 show ?thesis
    by (auto simp: post_webhook_def handle_def settle_def andThen_def split: prod.splits sum.splits)
qed

lemma post_selection:
  assumes "incoming_message req = Inr (Some m)" and "incomingId_of m = Inr (Some i)"
    and "step (fst (getUserState (msg_from m) w)) \<noteq> START"
  shows "post_webhook net req w =
           settle (route net (msg_from m) (fst (getUserState (msg_from m) w)) (Some i) w)"
  using assms text_of_interactive [OF assms(2)]
  by (intro post_rule3) (simp_all add: not_greeting_empty not_callback_empty)

lemma route_cfg:
  "i = ''CFG_1BHK'' \<or> i = ''CFG_2BHK'' \<or> i = ''CFG_3BHK'' \<or> i = ''CFG_4PLUS'' \<Longrightarrow>
   route net u us (Some i) w =
     sendBudgetList net u (put u (us\<lparr>config := Some (drop 4 i), step := ASK_BUDGET\<rparr>) w)"
  by (elim disjE) (simp_all add: route_def)

lemma route_bud:
  "i = ''BUD_BELOW_50'' \<or> i = ''BUD_50_75'' \<or> i = ''BUD_75_1CR'' \<or> i = ''BUD_1CR_PLUS'' \<Longrightarrow>
   route net u us (Some i) w =
     sendReasonButtons net u
       (put u (us\<lparr>budget := Some (replaceAll CHR ''_'' CHR '' '' (drop 4 i)),
                  step := ASK_REASON\<rparr>) w)"
  by (elim disjE) (simp_all add: route_def)

lemma route_rsn:
  "i = ''RSN_SELF'' \<or> i = ''RSN_INVEST'' \<Longrightarrow>
   route net u us (Some i) w =
     sendFinal net u
       (us\<lparr>reason := Some (if i = ''RSN_SELF'' then ''Self Use'' else ''Investment''),
           step := DONE\<rparr>)
       (put u (us\<lparr>reason := Some (if i = ''RSN_SELF'' then ''Self Use'' else ''Investment''),
                  step := DONE\<rparr>) w)"
  by (elim disjE) (simp_all add: route_def Let_def)

lemma route_other:
  "i \<notin> Some ` set recognised \<Longrightarrow> route net u us i w = sendMessage net (fallback u) w"
  by (cases i) (simp_all add: route_def recognised_def image_iff)

subsection \<open>The greeting and the first contact\<close>

text \<open>
  Claim C1 fails as it is stated for every message, whatever its content. The
  option identifier is read (lines 313 to 321) before the check of line 325, and
  reading it throws when a message of type "interactive" has no \<^verbatim>\<open>interactive\<close>
  object, or lacks the reply object that the type of that object names. The
  \<^verbatim>\<open>catch\<close> then acknowledges the call: a sender whose step is START gets no menu,
  and its step stays START.
\<close>

theorem unreadable_message_at_start_counterexample:
  "incoming_message
      (delivery \<lparr>msg_from = Some ''111'', msg_type = Some ''interactive'',
                 msg_text = None, msg_interactive = None\<rparr>)
     = Inr (Some \<lparr>msg_from = Some ''111'', msg_type = Some ''interactive'',
                  msg_text = None, msg_interactive = None\<rparr>)
   \<and> step (fst (getUserState (Some ''111'') startup)) = START
   \<and> post_webhook delivered
        (delivery \<lparr>msg_from = Some ''111'', msg_type = Some ''interactive'',
                   msg_text = None, msg_interactive = None\<rparr>) startup
     = (sendStatus 200,
        \<lparr>state = [Some ''111'' \<mapsto> \<lparr>step = START, config = None, budget = None, reason = None\<rparr>],
         outbox = [], console = [TypeError]\<rparr>)"
proof -
  define m where
    "m = \<lparr>msg_from = Some ''111'', msg_type = Some ''interactive'',
          msg_text = None, msg_interactive = None\<rparr>"
  have throws: "incomingId_of m = Inl TypeError"
    by (simp add: incomingId_of_def m_def)
  have "post_webhook delivered (delivery m) startup =
      (sendStatus 200,
       startup\<lparr>state := (state startup)(msg_from m \<mapsto> fst (getUserState (msg_from m) startup)),
               console := console startup @ [TypeError]\<rparr>)"
    by (rule post_throw [OF incoming_delivery throws])
  then show ?thesis
    unfolding m_def [symmetric]
    by (simp add: incoming_delivery m_def getUserState_def startup_def new_user_def)
qed

text \<open>
  Claim C1, amended. A delivery carries a message \<open>m\<close> whose option identifier can
  be read (a message of type "interactive" has its \<^verbatim>\<open>interactive\<close> object, with the
  reply object that its type names). When the trimmed text of \<open>m\<close> is "hi" or
  "hello" in any case, or the step of the sender is START (a sender not yet in the
  store has step START), the handler sets the step to MENU, sends the main menu and
  nothing else, whatever the text and the option identifier \<open>i\<close> are: the later
  rules are not reached. The call is acknowledged with 200, and a rejected send is
  logged.
\<close>

theorem greeting_or_start_sends_menu:
  assumes "incoming_message req = Inr (Some m)" and "incomingId_of m = Inr i"
    and "is_greeting (text_of m) \<or> step (fst (getUserState (msg_from m) w)) = START"
  shows "post_webhook net req w =
           (sendStatus 200,
            w\<lparr>state := (state w)(msg_from m \<mapsto> (fst (getUserState (msg_from m) w))\<lparr>step := MENU\<rparr>),
              outbox := outbox w @ [(welcome_menu (msg_from m), net (welcome_menu (msg_from m)))],
              console := console w @ (if net (welcome_menu (msg_from m)) then []
                                      else [SendError (welcome_menu (msg_from m))])\<rparr>)"
  unfolding post_rule1 [OF assms]
  by (simp add: sendWelcome_def settle_sendMessage put_def)

theorem greeting_or_start_sends_menu_witness:
  "incoming_message (delivery (text_msg ''111'' '' Hi '')) = Inr (Some (text_msg ''111'' '' Hi ''))
   \<and> incomingId_of (text_msg ''111'' '' Hi '') = Inr None
   \<and> is_greeting (text_of (text_msg ''111'' '' Hi ''))
   \<and> post_webhook delivered (delivery (text_msg ''111'' '' Hi ''))
        (startup\<lparr>state := [Some ''111'' \<mapsto> \<lparr>step = DONE, config = Some ''2BHK'',
                                             budget = Some ''50 75'', reason = Some ''Investment''\<rparr>]\<rparr>)
      = (sendStatus 200,
         startup\<lparr>state := [Some ''111'' \<mapsto> \<lparr>step = MENU, config = Some ''2BHK'',
                                              budget = Some ''50 75'', reason = Some ''Investment''\<rparr>],
                 outbox := [(welcome_menu (Some ''111''), True)]\<rparr>)"
proof -
  have h1: "incoming_message (delivery (text_msg ''111'' '' Hi '')) = Inr (Some (text_msg ''111'' '' Hi ''))"
    by (rule incoming_delivery)
  have h2: "incomingId_of (text_msg ''111'' '' Hi '') = Inr None"
    by (rule incomingId_text_msg)
  have h3: "is_greeting (text_of (text_msg ''111'' '' Hi ''))"
    by (simp add: text_of_text_msg trim_examples greeting_examples)
  show ?thesis
    using h1 h2 h3 greeting_or_start_sends_menu [OF h1 h2 disjI1 [OF h3], where w =
        "startup\<lparr>state := [Some ''111'' \<mapsto> \<lparr>step = DONE, config = Some ''2BHK'',
                                             budget = Some ''50 75'', reason = Some ''Investment''\<rparr>]\<rparr>"
        and net = delivered]
    by (simp add: msg_from_simps getUserState_def startup_def delivered_def)
qed

subsection \<open>Selections\<close>

lemma budget_values:
  "i = ''BUD_BELOW_50'' \<or> i = ''BUD_50_75'' \<or> i = ''BUD_75_1CR'' \<or> i = ''BUD_1CR_PLUS'' \<Longrightarrow>
   i = ''BUD_'' @ drop 4 i
   \<and> replaceAll CHR ''_'' CHR '' '' (drop 4 i) \<in> set [''BELOW 50'', ''50 75'', ''75 1CR'', ''1CR PLUS'']"
  by (elim disjE) (simp_all add: replaceAll_def)

lemma config_values:
  "i = ''CFG_1BHK'' \<or> i = ''CFG_2BHK'' \<or> i = ''CFG_3BHK'' \<or> i = ''CFG_4PLUS'' \<Longrightarrow>
   i = ''CFG_'' @ drop 4 i \<and> drop 4 i \<in> set [''1BHK'', ''2BHK'', ''3BHK'', ''4PLUS'']"
  by (elim disjE) simp_all

lemma post_cfg:
  assumes "incoming_message req = Inr (Some m)" and "incomingId_of m = Inr (Some i)"
    and "i = ''CFG_1BHK'' \<or> i = ''CFG_2BHK'' \<or> i = ''CFG_3BHK'' \<or> i = ''CFG_4PLUS''"
    and "step (fst (getUserState (msg_from m) w)) \<noteq> START"
  shows "post_webhook net req w =
           (sendStatus 200,
            w\<lparr>state := (state w)(msg_from m \<mapsto>
                 (fst (getUserState (msg_from m) w))\<lparr>config := Some (drop 4 i), step := ASK_BUDGET\<rparr>),
              outbox := outbox w @ [(budget_list (msg_from m), net (budget_list (msg_from m)))],
              console := console w @ (if net (budget_list (msg_from m)) then []
                                      else [SendError (budget_list (msg_from m))])\<rparr>)"
  unfolding post_selection [OF assms(1,2,4)] route_cfg [OF assms(3)]
  by (simp add: sendBudgetList_def settle_sendMessage put_def)

text \<open>
  Claim C3 fails as it is stated: it places no condition on the state of the sender.
  The check of line 325 comes first, so the budget selection of a sender whose step
  is START (here one the store has not seen, as after a restart of the server) gets
  the main menu, and no budget is stored.
\<close>

theorem budget_at_start_counterexample:
  "incomingId_of (list_msg ''111'' ''BUD_50_75'') = Inr (Some ''BUD_50_75'')
   \<and> state (snd (post_webhook delivered (delivery (list_msg ''111'' ''BUD_50_75'')) startup))
        (Some ''111'')
      = Some \<lparr>step = MENU, config = None, budget = None, reason = None\<rparr>
   \<and> outbox (snd (post_webhook delivered (delivery (list_msg ''111'' ''BUD_50_75'')) startup))
      = [(welcome_menu (Some ''111''), True)]"
proof -
  have st: "step (fst (getUserState (msg_from (list_msg ''111'' ''BUD_50_75'')) startup)) = START"
    by (simp add: getUserState_def startup_def new_user_def)
  show ?thesis
    unfolding post_rule1 [OF incoming_delivery incomingId_list_msg disjI2 [OF st]]
    by (simp add: incomingId_list_msg msg_from_simps sendWelcome_def settle_sendMessage put_def
        getUserState_def startup_def new_user_def delivered_def)
qed

text \<open>
  Claim C3, amended. A delivery carries a message with one of the four budget
  identifiers, from a sender whose step is not START (a selection has no text, so
  the rules on the text do not apply). The handler stores as budget the identifier
  without its prefix \<open>BUD_\<close> and with every underscore replaced by a space, which is
  one of "BELOW 50", "50 75", "75 1CR" and "1CR PLUS", sets the step to ASK_REASON
  and sends the reason buttons.
\<close>

theorem budget_selection_stores_budget:
  assumes "incoming_message req = Inr (Some m)" and "incomingId_of m = Inr (Some i)"
    and "i = ''BUD_BELOW_50'' \<or> i = ''BUD_50_75'' \<or> i = ''BUD_75_1CR'' \<or> i = ''BUD_1CR_PLUS''"
    and "step (fst (getUserState (msg_from m) w)) \<noteq> START"
  shows "post_webhook net req w =
           (sendStatus 200,
            w\<lparr>state := (state w)(msg_from m \<mapsto>
                 (fst (getUserState (msg_from m) w))
                   \<lparr>budget := Some (replaceAll CHR ''_'' CHR '' '' (drop 4 i)), step := ASK_REASON\<rparr>),
              outbox := outbox w @ [(reason_buttons (msg_from m), net (reason_buttons (msg_from m)))],
              console := console w @ (if net (reason_buttons (msg_from m)) then []
                                      else [SendError (reason_buttons (msg_from m))])\<rparr>)
         \<and> i = ''BUD_'' @ drop 4 i
         \<and> replaceAll CHR ''_'' CHR '' '' (drop 4 i)
             \<in> set [''BELOW 50'', ''50 75'', ''75 1CR'', ''1CR PLUS'']"
  unfolding post_selection [OF assms(1,2,4)] route_bud [OF assms(3)]
  using budget_values [OF assms(3)]
  by (simp add: sendReasonButtons_def settle_sendMessage put_def)

theorem budget_selection_stores_budget_witness:
  "incoming_message (delivery (list_msg ''111'' ''BUD_1CR_PLUS''))
     = Inr (Some (list_msg ''111'' ''BUD_1CR_PLUS''))
   \<and> incomingId_of (list_msg ''111'' ''BUD_1CR_PLUS'') = Inr (Some ''BUD_1CR_PLUS'')
   \<and> post_webhook delivered (delivery (list_msg ''111'' ''BUD_1CR_PLUS''))
        (startup\<lparr>state := [Some ''111'' \<mapsto> \<lparr>step = ASK_BUDGET, config = Some ''2BHK'',
                                             budget = None, reason = None\<rparr>]\<rparr>)
      = (sendStatus 200,
         startup\<lparr>state := [Some ''111'' \<mapsto> \<lparr>step = ASK_REASON, config = Some ''2BHK'',
                                              budget = Some ''1CR PLUS'', reason = None\<rparr>],
                 outbox := [(reason_buttons (Some ''111''), True)]\<rparr>)"
proof -
  have h1: "incoming_message (delivery (list_msg ''111'' ''BUD_1CR_PLUS''))
              = Inr (Some (list_msg ''111'' ''BUD_1CR_PLUS''))"
    by (rule incoming_delivery)
  have h2: "incomingId_of (list_msg ''111'' ''BUD_1CR_PLUS'') = Inr (Some ''BUD_1CR_PLUS'')"
    by (rule incomingId_list_msg)
  have h3: "''BUD_1CR_PLUS'' = ''BUD_BELOW_50'' \<or> ''BUD_1CR_PLUS'' = ''BUD_50_75''
            \<or> ''BUD_1CR_PLUS'' = ''BUD_75_1CR'' \<or> ''BUD_1CR_PLUS'' = ''BUD_1CR_PLUS''"
    by simp
  have h4: "step (fst (getUserState (msg_from (list_msg ''111'' ''BUD_1CR_PLUS''))
              (startup\<lparr>state := [Some ''111'' \<mapsto> \<lparr>step = ASK_BUDGET, config = Some ''2BHK'',
                                                   budget = None, reason = None\<rparr>]\<rparr>))) \<noteq> START"
    by (simp add: msg_from_simps getUserState_def)
  show ?thesis
    using h1 h2 budget_selection_stores_budget [OF h1 h2 h3 h4, where net = delivered]
    by (simp add: msg_from_simps getUserState_def startup_def delivered_def replaceAll_def)
qed

text \<open>
  Claim C4. A delivery carries a message with one of the four configuration
  identifiers, from a sender whose step is not START (a selection has no text, so
  neither the greeting nor the callback rule applies). The handler stores as config
  the identifier without its prefix \<open>CFG_\<close>, sets the step to ASK_BUDGET and sends
  the budget list. Handling the same delivery once more leaves the store as the
  first time left it and sends the budget list again.
\<close>

theorem config_selection_idempotent:
  assumes "incoming_message req = Inr (Some m)" and "incomingId_of m = Inr (Some i)"
    and "i = ''CFG_1BHK'' \<or> i = ''CFG_2BHK'' \<or> i = ''CFG_3BHK'' \<or> i = ''CFG_4PLUS''"
    and "step (fst (getUserState (msg_from m) w)) \<noteq> START"
  shows "i = ''CFG_'' @ drop 4 i
         \<and> state (snd (post_webhook net req w)) =
             (state w)(msg_from m \<mapsto>
                (fst (getUserState (msg_from m) w))\<lparr>config := Some (drop 4 i), step := ASK_BUDGET\<rparr>)
         \<and> attempts w (snd (post_webhook net req w)) =
             [(budget_list (msg_from m), net (budget_list (msg_from m)))]
         \<and> fst (post_webhook net req w) = sendStatus 200
         \<and> state (snd (post_webhook net' req (snd (post_webhook net req w)))) =
             state (snd (post_webhook net req w))
         \<and> attempts (snd (post_webhook net req w))
               (snd (post_webhook net' req (snd (post_webhook net req w)))) =
             [(budget_list (msg_from m), net' (budget_list (msg_from m)))]
         \<and> fst (post_webhook net' req (snd (post_webhook net req w))) = sendStatus 200"
proof -
  define u where "u = msg_from m"
  define w1 where "w1 = snd (post_webhook net req w)"
  note first = post_cfg [OF assms, of net]
  have s1: "state w1 =
      (state w)(u \<mapsto> (fst (getUserState u w))\<lparr>config := Some (drop 4 i), step := ASK_BUDGET\<rparr>)"
    by (simp add: w1_def u_def first)
  have a1: "attempts w w1 = [(budget_list u, net (budget_list u))]"
    by (simp add: w1_def u_def first attempts_def)
  have r1: "fst (post_webhook net req w) = sendStatus 200"
    by (simp add: first)
  have again: "step (fst (getUserState (msg_from m) w1)) \<noteq> START"
    by (simp add: s1 u_def getUserState_def)
  note second = post_cfg [OF assms(1,2,3) again, of net']
  have s2: "state (snd (post_webhook net' req w1)) = state w1"
    unfolding second by (auto simp: s1 u_def getUserState_def)
  have a2: "attempts w1 (snd (post_webhook net' req w1)) = [(budget_list u, net' (budget_list u))]"
    unfolding second by (simp add: u_def attempts_def)
  have r2: "fst (post_webhook net' req w1) = sendStatus 200"
    unfolding second by simp
  from config_values [OF assms(3)] have "i = ''CFG_'' @ drop 4 i"
    by blast
  with s1 a1 r1 s2 a2 r2 show ?thesis
    unfolding w1_def u_def by blast
qed

theorem config_selection_idempotent_witness:
  "incoming_message (delivery (list_msg ''111'' ''CFG_2BHK''))
     = Inr (Some (list_msg ''111'' ''CFG_2BHK''))
   \<and> incomingId_of (list_msg ''111'' ''CFG_2BHK'') = Inr (Some ''CFG_2BHK'')
   \<and> state (snd (post_webhook delivered (delivery (list_msg ''111'' ''CFG_2BHK''))
        (startup\<lparr>state := [Some ''111'' \<mapsto> new_user\<lparr>step := ASK_CONFIG\<rparr>]\<rparr>))) (Some ''111'')
      = Some \<lparr>step = ASK_BUDGET, config = Some ''2BHK'', budget = None, reason = None\<rparr>
   \<and> state (snd (post_webhook rejected (delivery (list_msg ''111'' ''CFG_2BHK''))
        (snd (post_webhook delivered (delivery (list_msg ''111'' ''CFG_2BHK''))
          (startup\<lparr>state := [Some ''111'' \<mapsto> new_user\<lparr>step := ASK_CONFIG\<rparr>]\<rparr>))))) (Some ''111'')
      = Some \<lparr>step = ASK_BUDGET, config = Some ''2BHK'', budget = None, reason = None\<rparr>"
proof -
  have h1: "incoming_message (delivery (list_msg ''111'' ''CFG_2BHK''))
              = Inr (Some (list_msg ''111'' ''CFG_2BHK''))"
    by (rule incoming_delivery)
  have h2: "incomingId_of (list_msg ''111'' ''CFG_2BHK'') = Inr (Some ''CFG_2BHK'')"
    by (rule incomingId_list_msg)
  have h3: "''CFG_2BHK'' = ''CFG_1BHK'' \<or> ''CFG_2BHK'' = ''CFG_2BHK''
            \<or> ''CFG_2BHK'' = ''CFG_3BHK'' \<or> ''CFG_2BHK'' = ''CFG_4PLUS''"
    by simp
  have h4: "step (fst (getUserState (msg_from (list_msg ''111'' ''CFG_2BHK''))
              (startup\<lparr>state := [Some ''111'' \<mapsto> new_user\<lparr>step := ASK_CONFIG\<rparr>]\<rparr>))) \<noteq> START"
    by (simp add: msg_from_simps getUserState_def)
  show ?thesis
    using h1 h2 config_selection_idempotent [OF h1 h2 h3 h4, where net = delivered and net' = rejected]
    by (simp add: msg_from_simps getUserState_def new_user_def)
qed

subsection \<open>Everything else\<close>

text \<open>
  Claim C6 fails as it is stated for every event that matches no rule. A message of
  type "interactive" whose reply object is missing matches none of them, and no
  identifier is read from it: reading it throws (line 317), the \<^verbatim>\<open>catch\<close>
  acknowledges the call, and no fallback prompt is sent.
\<close>

theorem unreadable_message_counterexample:
  "text_of \<lparr>msg_from = Some ''111'', msg_type = Some ''interactive'', msg_text = None,
            msg_interactive = Some \<lparr>interactive_type = Some ''button_reply'',
                                    button_reply = None, list_reply = None\<rparr>\<rparr> = []
   \<and> incomingId_of \<lparr>msg_from = Some ''111'', msg_type = Some ''interactive'', msg_text = None,
            msg_interactive = Some \<lparr>interactive_type = Some ''button_reply'',
                                    button_reply = None, list_reply = None\<rparr>\<rparr> = Inl TypeError
   \<and> post_webhook delivered
        (delivery \<lparr>msg_from = Some ''111'', msg_type = Some ''interactive'', msg_text = None,
            msg_interactive = Some \<lparr>interactive_type = Some ''button_reply'',
                                    button_reply = None, list_reply = None\<rparr>\<rparr>)
        \<lparr>state = [Some ''111'' \<mapsto> \<lparr>step = MENU, config = None, budget = None, reason = None\<rparr>],
         outbox = [], console = []\<rparr>
     = (sendStatus 200,
        \<lparr>state = [Some ''111'' \<mapsto> \<lparr>step = MENU, config = None, budget = None, reason = None\<rparr>],
         outbox = [], console = [TypeError]\<rparr>)"
proof -
  define m where
    "m = \<lparr>msg_from = Some ''111'', msg_type = Some ''interactive'', msg_text = None,
          msg_interactive = Some \<lparr>interactive_type = Some ''button_reply'',
                                  button_reply = None, list_reply = None\<rparr>\<rparr>"
  define w where
    "w = \<lparr>state = [Some ''111'' \<mapsto> \<lparr>step = MENU, config = None, budget = None, reason = None\<rparr>],
          outbox = [], console = []\<rparr>"
  have throws: "incomingId_of m = Inl TypeError"
    by (simp add: incomingId_of_def m_def)
  have "post_webhook delivered (delivery m) w =
      (sendStatus 200,
       w\<lparr>state := (state w)(msg_from m \<mapsto> fst (getUserState (msg_from m) w)),
         console := console w @ [TypeError]\<rparr>)"
    by (rule post_throw [OF incoming_delivery throws])
  then show ?thesis
    unfolding m_def [symmetric] w_def [symmetric]
    by (simp add: throws) (simp add: m_def w_def text_of_def getUserState_def)
qed

text \<open>
  Claim C6, amended. A delivery carries a message whose option identifier \<open>i\<close> can
  be read and is none of the thirteen identifiers of the \<^verbatim>\<open>switch\<close> (it may be
  absent, as for a plain text), whose text is neither a greeting nor "callback",
  from a sender whose step is not START. The handler sends the fallback prompt and
  changes nothing in the store.
\<close>

theorem unmatched_event_fallback:
  assumes "incoming_message req = Inr (Some m)" and "incomingId_of m = Inr i"
    and "\<not> is_greeting (text_of m)" and "step (fst (getUserState (msg_from m) w)) \<noteq> START"
    and "\<not> is_callback (text_of m)"
    and "i \<notin> Some ` set recognised"
  shows "post_webhook net req w =
           (sendStatus 200,
            w\<lparr>outbox := outbox w @ [(fallback (msg_from m), net (fallback (msg_from m)))],
              console := console w @ (if net (fallback (msg_from m)) then []
                                      else [SendError (fallback (msg_from m))])\<rparr>)
         \<and> content (fallback (msg_from m)) =
             Text ''Type *HI* to start over, or *CALLBACK* for an expert call.''"
  unfolding post_rule3 [OF assms(1-5)] route_other [OF assms(6)]
  by (simp add: settle_sendMessage fallback_def text_message_def)

theorem unmatched_event_fallback_witness:
  "incomingId_of (button_msg ''111'' ''BTN_OLD'') = Inr (Some ''BTN_OLD'')
   \<and> Some ''BTN_OLD'' \<notin> Some ` set recognised
   \<and> post_webhook delivered (delivery (button_msg ''111'' ''BTN_OLD''))
        (startup\<lparr>state := [Some ''111'' \<mapsto> \<lparr>step = ASK_BUDGET, config = Some ''2BHK'',
                                             budget = None, reason = None\<rparr>]\<rparr>)
      = (sendStatus 200,
         startup\<lparr>state := [Some ''111'' \<mapsto> \<lparr>step = ASK_BUDGET, config = Some ''2BHK'',
                                              budget = None, reason = None\<rparr>],
                 outbox := [(fallback (Some ''111''), True)]\<rparr>)"
proof -
  have h1: "incoming_message (delivery (button_msg ''111'' ''BTN_OLD''))
              = Inr (Some (button_msg ''111'' ''BTN_OLD''))"
    by (rule incoming_delivery)
  have h2: "incomingId_of (button_msg ''111'' ''BTN_OLD'') = Inr (Some ''BTN_OLD'')"
    by (rule incomingId_button_msg)
  have t: "text_of (button_msg ''111'' ''BTN_OLD'') = []"
    by (rule text_of_interactive [OF h2])
  have h3: "\<not> is_greeting (text_of (button_msg ''111'' ''BTN_OLD''))"
    by (simp add: t not_greeting_empty)
  have h5: "\<not> is_callback (text_of (button_msg ''111'' ''BTN_OLD''))"
    by (simp add: t not_callback_empty)
  have h4: "step (fst (getUserState (msg_from (button_msg ''111'' ''BTN_OLD''))
              (startup\<lparr>state := [Some ''111'' \<mapsto> \<lparr>step = ASK_BUDGET, config = Some ''2BHK'',
                                                   budget = None, reason = None\<rparr>]\<rparr>))) \<noteq> START"
    by (simp add: msg_from_simps getUserState_def)
  have h6: "Some ''BTN_OLD'' \<notin> Some ` set recognised"
    by (simp add: recognised_def image_iff)
  show ?thesis
    using h2 h6 unmatched_event_fallback [OF h1 h2 h3 h4 h5 h6, where net = delivered]
    by (simp add: msg_from_simps startup_def delivered_def)
qed

subsection \<open>The callback command\<close>




subsection \<open>The reason and the final summary\<close>




subsection \<open>The verification of the webhook\<close>

text \<open>
  Claim C7. When the mode of a GET request is "subscribe" and its token is the
  configured secret, the answer has status 200 and its body is the challenge of the
  request (no body when the request has no challenge). Otherwise the answer is the
  status 403 with the fixed body of that status, whatever the challenge is. In both
  cases the world, and so the conversation store, is the one before the request.
\<close>

theorem get_webhook_verification:
  "(hub_mode q = Some ''subscribe'' \<and> hub_verify_token q = Some secret \<longrightarrow>
      get_webhook secret q w = (\<lparr>status = 200, body = hub_challenge q\<rparr>, w))
   \<and> (hub_mode q \<noteq> Some ''subscribe'' \<or> hub_verify_token q \<noteq> Some secret \<longrightarrow>
      get_webhook secret q w = (\<lparr>status = 403, body = Some ''Forbidden''\<rparr>, w))"
  by (simp add: get_webhook_def sendStatus_def)

theorem get_webhook_verification_witness:
  "get_webhook ''s3cret''
     \<lparr>hub_mode = Some ''subscribe'', hub_verify_token = Some ''s3cret'',
      hub_challenge = Some ''1158201444''\<rparr> startup
     = (\<lparr>status = 200, body = Some ''1158201444''\<rparr>, startup)
   \<and> get_webhook ''s3cret''
       \<lparr>hub_mode = Some ''subscribe'', hub_verify_token = Some ''guess'',
        hub_challenge = Some ''1158201444''\<rparr> startup
     = (\<lparr>status = 403, body = Some ''Forbidden''\<rparr>, startup)
   \<and> get_webhook ''s3cret''
       \<lparr>hub_mode = Some ''unsubscribe'', hub_verify_token = Some ''s3cret'',
        hub_challenge = Some ''1158201444''\<rparr> startup
     = (\<lparr>status = 403, body = Some ''Forbidden''\<rparr>, startup)"
  using get_webhook_verification [of
      "\<lparr>hub_mode = Some ''subscribe'', hub_verify_token = Some ''s3cret'',
        hub_challenge = Some ''1158201444''\<rparr>" "''s3cret''" startup]
    get_webhook_verification [of
      "\<lparr>hub_mode = Some ''subscribe'', hub_verify_token = Some ''guess'',
        hub_challenge = Some ''1158201444''\<rparr>" "''s3cret''" startup]
    get_webhook_verification [of
      "\<lparr>hub_mode = Some ''unsubscribe'', hub_verify_token = Some ''s3cret'',
        hub_challenge = Some ''1158201444''\<rparr>" "''s3cret''" startup]
  by simp

subsection \<open>The effect of a delivery\<close>

lemma settle_send1:
  "settle (sendMessage net p w) =
     (sendStatus 200,
      w\<lparr>outbox := outbox w @ trace net [p], console := console w @ failures (trace net [p])\<rparr>)"
  by (simp add: settle_def sendMessage_def Let_def failures_def)

lemma settle_send2:
  "settle (andThen (sendMessage net p w) (\<lambda>_ w'. sendMessage net q w')) =
     (sendStatus 200,
      w\<lparr>outbox := outbox w @ trace net [p, q],
        console := console w @ failures (trace net [p, q])\<rparr>)"
  by (simp add: settle_def sendMessage_def andThen_def Let_def failures_def)

lemma put_known: "state w u = Some us \<Longrightarrow> w\<lparr>state := (state w)(u \<mapsto> us)\<rparr> = w"
  by (simp add: map_upd_triv)

lemma text_not_interactive:
  "final u us \<noteq> welcome_menu u" "why_nivaara u \<noteq> welcome_menu u"
  by (simp_all add: final_def why_nivaara_def text_message_def welcome_menu_def)

lemma recognised_cases:
  obtains (other) "i \<notin> Some ` set recognised"
  | (search) "i = Some ''BTN_SEARCH''"
  | (why) "i = Some ''BTN_WHY''"
  | (expert) "i = Some ''BTN_EXPERT''"
  | (cfg) j where "i = Some j"
      "j = ''CFG_1BHK'' \<or> j = ''CFG_2BHK'' \<or> j = ''CFG_3BHK'' \<or> j = ''CFG_4PLUS''"
  | (bud) j where "i = Some j"
      "j = ''BUD_BELOW_50'' \<or> j = ''BUD_50_75'' \<or> j = ''BUD_75_1CR'' \<or> j = ''BUD_1CR_PLUS''"
  | (rsn) j where "i = Some j" "j = ''RSN_SELF'' \<or> j = ''RSN_INVEST''"
proof (cases "i \<in> Some ` set recognised")
  case False
  then show ?thesis
    by (rule other)
next
  case True
  then obtain j where j: "i = Some j" "j \<in> set recognised"
    by auto
  define S where "S \<longleftrightarrow> j = ''BTN_SEARCH''"
  define W where "W \<longleftrightarrow> j = ''BTN_WHY''"
  define E where "E \<longleftrightarrow> j = ''BTN_EXPERT''"
  define C where
    "C \<longleftrightarrow> j = ''CFG_1BHK'' \<or> j = ''CFG_2BHK'' \<or> j = ''CFG_3BHK'' \<or> j = ''CFG_4PLUS''"
  define B where
    "B \<longleftrightarrow> j = ''BUD_BELOW_50'' \<or> j = ''BUD_50_75'' \<or> j = ''BUD_75_1CR'' \<or> j = ''BUD_1CR_PLUS''"
  define R where "R \<longleftrightarrow> j = ''RSN_SELF'' \<or> j = ''RSN_INVEST''"
  from j(2) have "S \<or> W \<or> E \<or> C \<or> B \<or> R"
    by (simp add: recognised_def S_def W_def E_def C_def B_def R_def)
  then consider S | W | E | C | B | R
    by blast
  then show ?thesis
  proof cases
    case 1 with j(1) show ?thesis unfolding S_def by (intro search) simp
  next
    case 2 with j(1) show ?thesis unfolding W_def by (intro why) simp
  next
    case 3 with j(1) show ?thesis unfolding E_def by (intro expert) simp
  next
    case 4 with j(1) show ?thesis unfolding C_def by (rule cfg)
  next
    case 5 with j(1) show ?thesis unfolding B_def by (rule bud)
  next
    case 6 with j(1) show ?thesis unfolding R_def by (rule rsn)
  qed
qed

lemma route_effect:
  "\<exists>us' ps. distinct ps \<and> filled us us' \<and> (well_typed us \<longrightarrow> well_typed us')
     \<and> (\<forall>w. state w u = Some us \<longrightarrow>
           settle (route net u us i w) =
             (sendStatus 200,
              w\<lparr>state := (state w)(u \<mapsto> us'),
                outbox := outbox w @ trace net ps,
                console := console w @ failures (trace net ps)\<rparr>))"
proof (cases i rule: recognised_cases)
  case other
  have "\<forall>w. state w u = Some us \<longrightarrow>
          settle (route net u us i w) =
            (sendStatus 200,
             w\<lparr>state := (state w)(u \<mapsto> us),
               outbox := outbox w @ trace net [fallback u],
               console := console w @ failures (trace net [fallback u])\<rparr>)"
    by (simp add: route_other [OF other] settle_send1 map_upd_triv)
  then show ?thesis
    by (intro exI [of _ us] exI [of _ "[fallback u]"]) (simp add: filled_def)
next
  case search
  have "\<forall>w. settle (route net u us i w) =
            (sendStatus 200,
             w\<lparr>state := (state w)(u \<mapsto> us\<lparr>step := ASK_CONFIG\<rparr>),
               outbox := outbox w @ trace net [config_list u],
               console := console w @ failures (trace net [config_list u])\<rparr>)"
    by (simp add: search route_def sendConfigList_def settle_send1 put_def)
  then show ?thesis
    by (intro exI [of _ "us\<lparr>step := ASK_CONFIG\<rparr>"] exI [of _ "[config_list u]"])
      (simp add: filled_def well_typed_def)
next
  case why
  have "\<forall>w. state w u = Some us \<longrightarrow>
          settle (route net u us i w) =
            (sendStatus 200,
             w\<lparr>state := (state w)(u \<mapsto> us),
               outbox := outbox w @ trace net [why_nivaara u, welcome_menu u],
               console := console w @ failures (trace net [why_nivaara u, welcome_menu u])\<rparr>)"
    by (simp add: why route_def sendWhyNivaara_def sendWelcome_def settle_send2 map_upd_triv)
  then show ?thesis
    by (intro exI [of _ us] exI [of _ "[why_nivaara u, welcome_menu u]"])
      (simp add: filled_def text_not_interactive)
next
  case expert
  have "\<forall>w. settle (route net u us i w) =
            (sendStatus 200,
             w\<lparr>state := (state w)(u \<mapsto> us\<lparr>step := LEAD_CAPTURE\<rparr>),
               outbox := outbox w @ trace net [expert_prompt u],
               console := console w @ failures (trace net [expert_prompt u])\<rparr>)"
    by (simp add: expert route_def settle_send1 put_def)
  then show ?thesis
    by (intro exI [of _ "us\<lparr>step := LEAD_CAPTURE\<rparr>"] exI [of _ "[expert_prompt u]"])
      (simp add: filled_def well_typed_def)
next
  case (cfg j)
  have "\<forall>w. settle (route net u us i w) =
            (sendStatus 200,
             w\<lparr>state := (state w)(u \<mapsto> us\<lparr>config := Some (drop 4 j), step := ASK_BUDGET\<rparr>),
               outbox := outbox w @ trace net [budget_list u],
               console := console w @ failures (trace net [budget_list u])\<rparr>)"
    by (simp add: cfg(1) route_cfg [OF cfg(2)] sendBudgetList_def settle_send1 put_def)
  then show ?thesis
    using config_values [OF cfg(2)]
    by (intro exI [of _ "us\<lparr>config := Some (drop 4 j), step := ASK_BUDGET\<rparr>"]
        exI [of _ "[budget_list u]"])
      (simp add: filled_def well_typed_def)
next
  case (bud j)
  have "\<forall>w. settle (route net u us i w) =
            (sendStatus 200,
             w\<lparr>state := (state w)(u \<mapsto>
                  us\<lparr>budget := Some (replaceAll CHR ''_'' CHR '' '' (drop 4 j)), step := ASK_REASON\<rparr>),
               outbox := outbox w @ trace net [reason_buttons u],
               console := console w @ failures (trace net [reason_buttons u])\<rparr>)"
    by (simp add: bud(1) route_bud [OF bud(2)] sendReasonButtons_def settle_send1 put_def)
  then show ?thesis
    using budget_values [OF bud(2)]
    by (intro exI [of _ "us\<lparr>budget := Some (replaceAll CHR ''_'' CHR '' '' (drop 4 j)),
                             step := ASK_REASON\<rparr>"]
        exI [of _ "[reason_buttons u]"])
      (simp add: filled_def well_typed_def)
next
  case (rsn j)
  define us' where
    "us' = us\<lparr>reason := Some (if j = ''RSN_SELF'' then ''Self Use'' else ''Investment''),
              step := DONE\<rparr>"
  have "\<forall>w. settle (route net u us i w) =
            (sendStatus 200,
             w\<lparr>state := (state w)(u \<mapsto> us'),
               outbox := outbox w @ trace net [final u us', welcome_menu u],
               console := console w @ failures (trace net [final u us', welcome_menu u])\<rparr>)"
    unfolding rsn(1) route_rsn [OF rsn(2)] us'_def [symmetric]
    by (simp add: sendFinal_def sendWelcome_def settle_send2 put_def)
  then show ?thesis
    by (intro exI [of _ us'] exI [of _ "[final u us', welcome_menu u]"])
      (simp add: filled_def well_typed_def us'_def text_not_interactive)
qed

lemma post_effect:
  assumes us: "us = (case s of None \<Rightarrow> new_user | Some x \<Rightarrow> x)"
  shows "\<exists>us' ps errs.
           distinct ps \<and> filled us us' \<and> (well_typed us \<longrightarrow> well_typed us')
           \<and> (errs = failures (trace net ps) \<or> ps = [] \<and> errs = [TypeError])
           \<and> (\<forall>req w. incoming_message req = Inr (Some m) \<longrightarrow> state w (msg_from m) = s \<longrightarrow>
                 post_webhook net req w =
                   (sendStatus 200,
                    w\<lparr>state := (state w)(msg_from m \<mapsto> us'),
                      outbox := outbox w @ trace net ps,
                      console := console w @ errs\<rparr>))"
proof -
  define u where "u = msg_from m"
  have cur: "fst (getUserState u w) = us" if "state w u = s" for w
    using that by (simp add: getUserState_fst us)
  have known: "state w u = Some us" if "state w u = s" "step us \<noteq> START" for w
    using that by (cases s) (simp_all add: us new_user_def)
  show ?thesis
  proof (cases "incomingId_of m")
    case (Inl e)
    have "post_webhook net req w =
            (sendStatus 200,
             w\<lparr>state := (state w)(u \<mapsto> us), outbox := outbox w @ trace net [],
               console := console w @ [TypeError]\<rparr>)"
      if "incoming_message req = Inr (Some m)" "state w u = s" for req w
      using post_throw [OF that(1) Inl, of net w] cur [OF that(2)] by (simp add: u_def)
    then show ?thesis
      unfolding u_def [symmetric]
      by (intro exI [of _ us] exI [of _ "[]"] exI [of _ "[TypeError]"]) (simp add: filled_def)
  next
    case (Inr i)
    consider (rule1) "is_greeting (text_of m) \<or> step us = START"
      | (rule2) "\<not> is_greeting (text_of m)" "step us \<noteq> START" "is_callback (text_of m)"
      | (rule3) "\<not> is_greeting (text_of m)" "step us \<noteq> START" "\<not> is_callback (text_of m)"
      by blast
    then show ?thesis
    proof cases
      case rule1
      have "post_webhook net req w =
              (sendStatus 200,
               w\<lparr>state := (state w)(u \<mapsto> us\<lparr>step := MENU\<rparr>),
                 outbox := outbox w @ trace net [welcome_menu u],
                 console := console w @ failures (trace net [welcome_menu u])\<rparr>)"
        if "incoming_message req = Inr (Some m)" "state w u = s" for req w
      proof -
        have "is_greeting (text_of m) \<or> step (fst (getUserState (msg_from m) w)) = START"
          using rule1 cur [OF that(2)] by (simp add: u_def)
        from post_rule1 [OF that(1) Inr this, of net] cur [OF that(2)] show ?thesis
          by (simp add: u_def sendWelcome_def settle_send1 put_def)
      qed
      then show ?thesis
        unfolding u_def [symmetric]
        by (intro exI [of _ "us\<lparr>step := MENU\<rparr>"] exI [of _ "[welcome_menu u]"]
            exI [of _ "failures (trace net [welcome_menu u])"])
          (simp add: filled_def well_typed_def)
    next
      case rule2
      define us' where
        "us' = (if net (callback_prompt u) then us\<lparr>step := LEAD_CAPTURE\<rparr> else us)"
      have "post_webhook net req w =
              (sendStatus 200,
               w\<lparr>state := (state w)(u \<mapsto> us'),
                 outbox := outbox w @ trace net [callback_prompt u],
                 console := console w @ failures (trace net [callback_prompt u])\<rparr>)"
        if "incoming_message req = Inr (Some m)" "state w u = s" for req w
      proof -
        have st: "step (fst (getUserState (msg_from m) w)) \<noteq> START"
          using rule2(2) cur [OF that(2)] by (simp add: u_def)
        from post_rule2 [OF that(1) rule2(3) st, of net] cur [OF that(2)]
          known [OF that(2) rule2(2)]
        show ?thesis
          by (simp add: u_def [symmetric] us'_def sendMessage_def put_def failures_def
              map_upd_triv)
      qed
      then show ?thesis
        unfolding u_def [symmetric]
        by (intro exI [of _ us'] exI [of _ "[callback_prompt u]"]
            exI [of _ "failures (trace net [callback_prompt u])"])
          (simp add: filled_def well_typed_def us'_def)
    next
      case rule3
      from route_effect [where us = us and net = net and u = u and i = i] obtain us' ps where
        ps: "distinct ps" "filled us us'" "well_typed us \<longrightarrow> well_typed us'"
        and eff: "\<And>w. state w u = Some us \<Longrightarrow>
                settle (route net u us i w) =
                  (sendStatus 200,
                   w\<lparr>state := (state w)(u \<mapsto> us'),
                     outbox := outbox w @ trace net ps,
                     console := console w @ failures (trace net ps)\<rparr>)"
        by blast
      have "post_webhook net req w =
              (sendStatus 200,
               w\<lparr>state := (state w)(u \<mapsto> us'),
                 outbox := outbox w @ trace net ps,
                 console := console w @ failures (trace net ps)\<rparr>)"
        if "incoming_message req = Inr (Some m)" "state w u = s" for req w
      proof -
        have st: "step (fst (getUserState (msg_from m) w)) \<noteq> START"
          using rule3(2) cur [OF that(2)] by (simp add: u_def)
        have ng: "\<not> is_greeting (text_of m)" and nc: "\<not> is_callback (text_of m)"
          using rule3 by simp_all
        from post_rule3 [OF that(1) Inr ng st nc, of net] cur [OF that(2)]
          eff [OF known [OF that(2) rule3(2)]]
        show ?thesis
          by (simp add: u_def [symmetric])
      qed
      then show ?thesis
        unfolding u_def [symmetric] using ps
        by (intro exI [of _ us'] exI [of _ ps] exI [of _ "failures (trace net ps)"]) simp
    qed
  qed
qed

subsection \<open>Sends in order\<close>





lemma post_no_message:
  "incoming_message req = Inr None \<Longrightarrow> post_webhook net req w = (sendStatus 200, w)"
  by (simp add: post_webhook_def handle_def)

lemma post_no_body:
  "incoming_message req = Inl e \<Longrightarrow>
   post_webhook net req w = (sendStatus 200, w\<lparr>console := console w @ [e]\<rparr>)"
  by (simp add: post_webhook_def handle_def)

lemma post_message:
  assumes "incoming_message req = Inr (Some m)"
  obtains us' ps errs where
    "distinct ps"
    "filled (fst (getUserState (msg_from m) w)) us'"
    "well_typed (fst (getUserState (msg_from m) w)) \<longrightarrow> well_typed us'"
    "errs = failures (trace net ps) \<or> ps = [] \<and> errs = [TypeError]"
    "post_webhook net req w =
       (sendStatus 200,
        w\<lparr>state := (state w)(msg_from m \<mapsto> us'),
          outbox := outbox w @ trace net ps,
          console := console w @ errs\<rparr>)"
proof -
  have us: "fst (getUserState (msg_from m) w) =
      (case state w (msg_from m) of None \<Rightarrow> new_user | Some x \<Rightarrow> x)"
    by (rule getUserState_fst)
  from post_effect [OF us, where net = net and m = m] assms that show ?thesis
    by blast
qed

subsection \<open>The acknowledgment\<close>



subsection \<open>One sender at a time\<close>

text \<open>
  Claim C10. Handling a delivery that carries a message of the sender \<open>u\<close> changes
  the store under \<open>u\<close> only: the state stored under any other identifier is after
  the call what it was before. It reads the store under \<open>u\<close> only: from two worlds
  that agree on what is stored under \<open>u\<close>, the call gives the same answer, makes the
  same sends and leaves the same state under \<open>u\<close>.
\<close>

theorem delivery_touches_sender_only:
  assumes "incoming_message req = Inr (Some m)"
  shows "(\<forall>v. v \<noteq> msg_from m \<longrightarrow> state (snd (post_webhook net req w)) v = state w v)
         \<and> (\<forall>w'. state w' (msg_from m) = state w (msg_from m) \<longrightarrow>
               fst (post_webhook net req w') = fst (post_webhook net req w)
               \<and> state (snd (post_webhook net req w')) (msg_from m) =
                   state (snd (post_webhook net req w)) (msg_from m)
               \<and> attempts w' (snd (post_webhook net req w')) =
                   attempts w (snd (post_webhook net req w)))"
proof -
  have "(case state w (msg_from m) of None \<Rightarrow> new_user | Some x \<Rightarrow> x) =
        (case state w (msg_from m) of None \<Rightarrow> new_user | Some x \<Rightarrow> x)"
    by (rule refl)
  from post_effect [OF this, where net = net and m = m]
  obtain us' ps errs where
    eq: "\<And>req w'. incoming_message req = Inr (Some m) \<Longrightarrow>
          state w' (msg_from m) = state w (msg_from m) \<Longrightarrow>
          post_webhook net req w' =
            (sendStatus 200,
             w'\<lparr>state := (state w')(msg_from m \<mapsto> us'),
                outbox := outbox w' @ trace net ps,
                console := console w' @ errs\<rparr>)"
    by blast
  have here: "post_webhook net req w =
      (sendStatus 200,
       w\<lparr>state := (state w)(msg_from m \<mapsto> us'),
         outbox := outbox w @ trace net ps,
         console := console w @ errs\<rparr>)"
    by (rule eq [OF assms refl])
  have other: "state (snd (post_webhook net req w)) v = state w v" if "v \<noteq> msg_from m" for v
    using that by (simp add: here)
  have same: "fst (post_webhook net req w') = fst (post_webhook net req w)
      \<and> state (snd (post_webhook net req w')) (msg_from m) =
          state (snd (post_webhook net req w)) (msg_from m)
      \<and> attempts w' (snd (post_webhook net req w')) = attempts w (snd (post_webhook net req w))"
    if "state w' (msg_from m) = state w (msg_from m)" for w'
    by (simp add: here eq [OF assms that] attempts_def)
  show ?thesis
  proof (rule conjI)
    show "\<forall>v. v \<noteq> msg_from m \<longrightarrow> state (snd (post_webhook net req w)) v = state w v"
      using other by blast
    show "\<forall>w'. state w' (msg_from m) = state w (msg_from m) \<longrightarrow>
            fst (post_webhook net req w') = fst (post_webhook net req w)
            \<and> state (snd (post_webhook net req w')) (msg_from m) =
                state (snd (post_webhook net req w)) (msg_from m)
            \<and> attempts w' (snd (post_webhook net req w')) =
                attempts w (snd (post_webhook net req w))"
      using same by blast
  qed
qed

theorem delivery_touches_sender_only_witness:
  "state (snd (post_webhook delivered (delivery (list_msg ''111'' ''CFG_3BHK''))
      (startup\<lparr>state := [Some ''111'' \<mapsto> new_user\<lparr>step := ASK_CONFIG\<rparr>,
                         Some ''222'' \<mapsto> new_user\<lparr>step := DONE, reason := Some ''Self Use''\<rparr>]\<rparr>)))
     (Some ''222'')
     = Some (new_user\<lparr>step := DONE, reason := Some ''Self Use''\<rparr>)
   \<and> state (snd (post_webhook delivered (delivery (list_msg ''111'' ''CFG_3BHK''))
        (startup\<lparr>state := [Some ''111'' \<mapsto> new_user\<lparr>step := ASK_CONFIG\<rparr>]\<rparr>)))
       (Some ''111'')
     = state (snd (post_webhook delivered (delivery (list_msg ''111'' ''CFG_3BHK''))
        (startup\<lparr>state := [Some ''111'' \<mapsto> new_user\<lparr>step := ASK_CONFIG\<rparr>,
                           Some ''222'' \<mapsto> new_user\<lparr>step := DONE, reason := Some ''Self Use''\<rparr>]\<rparr>)))
       (Some ''111'')"
proof -
  define w where
    "w = startup\<lparr>state := [Some ''111'' \<mapsto> new_user\<lparr>step := ASK_CONFIG\<rparr>,
                          Some ''222'' \<mapsto> new_user\<lparr>step := DONE, reason := Some ''Self Use''\<rparr>]\<rparr>"
  define w' where "w' = startup\<lparr>state := [Some ''111'' \<mapsto> new_user\<lparr>step := ASK_CONFIG\<rparr>]\<rparr>"
  define m where "m = list_msg ''111'' ''CFG_3BHK''"
  have msg: "incoming_message (delivery m) = Inr (Some m)"
    by (rule incoming_delivery)
  note t = delivery_touches_sender_only [OF msg, of delivered w]
  have other: "Some ''222'' \<noteq> msg_from m"
    by (simp add: m_def msg_from_simps)
  have agree: "state w' (msg_from m) = state w (msg_from m)"
    by (simp add: w_def w'_def m_def msg_from_simps)
  from t [THEN conjunct1, rule_format, OF other]
    t [THEN conjunct2, rule_format, OF agree, THEN conjunct2, THEN conjunct1]
  show ?thesis
    by (simp add: w_def w'_def m_def msg_from_simps)
qed

subsection \<open>The store over time\<close>

lemma filled_refl: "filled us us"
  by (simp add: filled_def)

lemma filled_trans: "filled a b \<Longrightarrow> filled b c \<Longrightarrow> filled a c"
  by (simp add: filled_def)

lemma well_typed_new_user: "well_typed new_user"
  by (simp add: well_typed_def new_user_def)

lemma post_store:
  assumes typed: "\<forall>u us. state w u = Some us \<longrightarrow> well_typed us"
  shows "(\<forall>u us. state w u = Some us \<longrightarrow>
            (\<exists>us'. state (snd (post_webhook net req w)) u = Some us' \<and> filled us us'))
         \<and> (\<forall>u us. state (snd (post_webhook net req w)) u = Some us \<longrightarrow> well_typed us)
         \<and> (\<forall>m. incoming_message req = Inr (Some m) \<longrightarrow>
               msg_from m \<in> dom (state (snd (post_webhook net req w))))"
proof (cases "incoming_message req")
  case (Inl e)
  with typed show ?thesis
    by (auto simp: post_no_body filled_refl)
next
  case (Inr mo)
  show ?thesis
  proof (cases mo)
    case None
    with Inr typed show ?thesis
      by (auto simp: post_no_message filled_refl)
  next
    case (Some m)
    with Inr have msg: "incoming_message req = Inr (Some m)"
      by simp
    define us0 where "us0 = fst (getUserState (msg_from m) w)"
    obtain us' ps errs where
      "distinct ps"
      and f: "filled us0 us'"
      and t: "well_typed us0 \<longrightarrow> well_typed us'"
      and "errs = failures (trace net ps) \<or> ps = [] \<and> errs = [TypeError]"
      and eq: "post_webhook net req w =
         (sendStatus 200,
          w\<lparr>state := (state w)(msg_from m \<mapsto> us'),
            outbox := outbox w @ trace net ps,
            console := console w @ errs\<rparr>)"
      unfolding us0_def by (rule post_message [OF msg])
    have st: "state (snd (post_webhook net req w)) = (state w)(msg_from m \<mapsto> us')"
      by (simp add: eq)
    have "well_typed us0"
      using typed by (simp add: us0_def getUserState_fst well_typed_new_user split: option.splits)
    with t have t': "well_typed us'"
      by simp
    have known: "us0 = us" if "state w (msg_from m) = Some us" for us
      using that by (simp add: us0_def getUserState_fst)
    show ?thesis
      unfolding st using typed t' f known msg
      by (auto simp: filled_refl)
  qed
qed

lemma senders_Cons:
  "senders ((net, req) # ds) =
     {u. \<exists>m. incoming_message req = Inr (Some m) \<and> u = msg_from m} \<union> senders ds"
  by (auto simp: senders_def)

text \<open>
  Claim C9. The server handles any list of deliveries, from a store whose states
  hold in each field \<^verbatim>\<open>null\<close> or a value of the field's enumeration (the empty store
  of the start is one). Then every sender of a message in the list is in the
  store, whatever was delivered after its message; no identifier leaves the store; a
  field of config, budget or reason that held a value before the list holds one
  after it, a greeting in between or not; and every state still holds in each field
  \<^verbatim>\<open>null\<close> or a value of its enumeration.
\<close>

theorem store_grows_and_fills:
  assumes "\<forall>u us. state w u = Some us \<longrightarrow> well_typed us"
  shows "senders ds \<subseteq> dom (state (deliveries ds w))
         \<and> dom (state w) \<subseteq> dom (state (deliveries ds w))
         \<and> (\<forall>u us. state w u = Some us \<longrightarrow>
               (\<exists>us'. state (deliveries ds w) u = Some us' \<and> filled us us'))
         \<and> (\<forall>u us. state (deliveries ds w) u = Some us \<longrightarrow> well_typed us)"
  using assms
proof (induction ds arbitrary: w)
  case Nil
  then show ?case
    by (auto simp: senders_def filled_refl)
next
  case (Cons d ds)
  obtain net req where d: "d = (net, req)"
    by (cases d)
  define w1 where "w1 = snd (post_webhook net req w)"
  note one = post_store [OF Cons.prems, of net req, folded w1_def]
  from one have typed1: "\<forall>u us. state w1 u = Some us \<longrightarrow> well_typed us"
    by blast
  note rest = Cons.IH [OF typed1]
  have run: "deliveries (d # ds) w = deliveries ds w1"
    by (simp add: d w1_def)
  have keep: "\<exists>us'. state (deliveries ds w1) u = Some us' \<and> filled us us'"
    if "state w u = Some us" for u us
  proof -
    from one that obtain us1 where "state w1 u = Some us1" "filled us us1"
      by blast
    moreover from rest this(1) obtain us' where
      "state (deliveries ds w1) u = Some us'" "filled us1 us'"
      by blast
    ultimately show ?thesis
      using filled_trans by blast
  qed
  have new: "u \<in> dom (state (deliveries ds w1))" if "u \<in> senders (d # ds)" for u
  proof -
    from that consider m where "incoming_message req = Inr (Some m)" "u = msg_from m"
      | "u \<in> senders ds"
      unfolding d senders_Cons by blast
    then show ?thesis
    proof cases
      case 1
      with one have "u \<in> dom (state w1)"
        by blast
      with rest show ?thesis
        by blast
    next
      case 2
      with rest show ?thesis
        by blast
    qed
  qed
  show ?case
    unfolding run using keep new rest
    by (intro conjI) blast+
qed

theorem store_grows_and_fills_witness:
  "well_typed \<lparr>step = DONE, config = Some ''2BHK'', budget = Some ''50 75'',
               reason = Some ''Investment''\<rparr>
   \<and> Some ''222'' \<in> dom (state (deliveries
        [(delivered, delivery (text_msg ''111'' ''hi'')),
         (rejected, delivery (text_msg ''222'' ''hello''))]
        (startup\<lparr>state := [Some ''111'' \<mapsto> \<lparr>step = DONE, config = Some ''2BHK'',
                                             budget = Some ''50 75'', reason = Some ''Investment''\<rparr>]\<rparr>)))
   \<and> (\<exists>us'. state (deliveries
          [(delivered, delivery (text_msg ''111'' ''hi'')),
           (rejected, delivery (text_msg ''222'' ''hello''))]
          (startup\<lparr>state := [Some ''111'' \<mapsto> \<lparr>step = DONE, config = Some ''2BHK'',
                                               budget = Some ''50 75'', reason = Some ''Investment''\<rparr>]\<rparr>))
          (Some ''111'') = Some us'
        \<and> filled \<lparr>step = DONE, config = Some ''2BHK'', budget = Some ''50 75'',
                   reason = Some ''Investment''\<rparr> us'
        \<and> well_typed us')"
proof -
  define us0 where
    "us0 = \<lparr>step = DONE, config = Some ''2BHK'', budget = Some ''50 75'',
             reason = Some ''Investment''\<rparr>"
  define w where "w = startup\<lparr>state := [Some ''111'' \<mapsto> us0]\<rparr>"
  define ds where
    "ds = [(delivered, delivery (text_msg ''111'' ''hi'')),
           (rejected, delivery (text_msg ''222'' ''hello''))]"
  have wt: "well_typed us0"
    by (simp add: us0_def well_typed_def)
  then have h: "\<forall>u us. state w u = Some us \<longrightarrow> well_typed us"
    by (simp add: w_def)
  note t = store_grows_and_fills [OF h, of ds]
  have "\<exists>m d. Some ''222'' = msg_from m \<and> d \<in> set ds \<and> incoming_message (snd d) = Inr (Some m)"
    by (intro exI [of _ "text_msg ''222'' ''hello''"]
        exI [of _ "(rejected, delivery (text_msg ''222'' ''hello''))"])
      (simp add: ds_def msg_from_simps incoming_delivery)
  then have "Some ''222'' \<in> senders ds"
    by (simp add: senders_def)
  with t have a: "Some ''222'' \<in> dom (state (deliveries ds w))"
    by blast
  have "state w (Some ''111'') = Some us0"
    by (simp add: w_def)
  with t obtain us' where "state (deliveries ds w) (Some ''111'') = Some us'" "filled us0 us'"
    by blast
  moreover from t this(1) have "well_typed us'"
    by blast
  ultimately have b: "\<exists>us'. state (deliveries ds w) (Some ''111'') = Some us'
      \<and> filled us0 us' \<and> well_typed us'"
    by blast
  from wt a b show ?thesis
    unfolding us0_def w_def ds_def by (intro conjI)
qed

end
